theory Spec2Isabelle
  imports Main "HOL-Library.Sublist"
begin

section \<open>String primitives of the host language\<close>

text \<open>
  A string is the list of its code units, and a character here is a code unit in the
  range U+0000 to U+00FF; code units above U+00FF are outside the string type.
  \<open>trim\<close> strips white space and line terminators from both ends: in this range they
  are tab, line feed, vertical tab, form feed, carriage return, space and the no-break
  space U+00A0. \<open>toLowerCase\<close> maps \<open>A\<close>..\<open>Z\<close> to \<open>a\<close>..\<open>z\<close> and the capital
  letters U+00C0..U+00DE, the multiplication sign U+00D7 apart, to U+00E0..U+00FE, and
  leaves every other character alone. \<open>length\<close> counts code units, and
  \<open>str_includes s q\<close> tells whether \<open>q\<close> occurs in \<open>s\<close> as a contiguous run (the empty
  string occurs everywhere).
\<close>

definition is_white_space :: "char \<Rightarrow> bool" where
  "is_white_space c =
     List.member [CHR 0x09, CHR 0x0A, CHR 0x0B, CHR 0x0C, CHR 0x0D, CHR 0x20, CHR 0xA0] c"

definition trim :: "string \<Rightarrow> string" where
  "trim s = rev (dropWhile is_white_space (rev (dropWhile is_white_space s)))"

definition upper_case :: string where
  "upper_case =
     ''ABCDEFGHIJKLMNOPQRSTUVWXYZ'' @
     [CHR 0xC0, CHR 0xC1, CHR 0xC2, CHR 0xC3, CHR 0xC4, CHR 0xC5, CHR 0xC6, CHR 0xC7,
      CHR 0xC8, CHR 0xC9, CHR 0xCA, CHR 0xCB, CHR 0xCC, CHR 0xCD, CHR 0xCE, CHR 0xCF,
      CHR 0xD0, CHR 0xD1, CHR 0xD2, CHR 0xD3, CHR 0xD4, CHR 0xD5, CHR 0xD6,
      CHR 0xD8, CHR 0xD9, CHR 0xDA, CHR 0xDB, CHR 0xDC, CHR 0xDD, CHR 0xDE]"

definition lower_case :: string where
  "lower_case =
     ''abcdefghijklmnopqrstuvwxyz'' @
     [CHR 0xE0, CHR 0xE1, CHR 0xE2, CHR 0xE3, CHR 0xE4, CHR 0xE5, CHR 0xE6, CHR 0xE7,
      CHR 0xE8, CHR 0xE9, CHR 0xEA, CHR 0xEB, CHR 0xEC, CHR 0xED, CHR 0xEE, CHR 0xEF,
      CHR 0xF0, CHR 0xF1, CHR 0xF2, CHR 0xF3, CHR 0xF4, CHR 0xF5, CHR 0xF6,
      CHR 0xF8, CHR 0xF9, CHR 0xFA, CHR 0xFB, CHR 0xFC, CHR 0xFD, CHR 0xFE]"

definition lower_char :: "char \<Rightarrow> char" where
  "lower_char c =
     (case map_of (zip upper_case lower_case) c of
        None \<Rightarrow> c
      | Some d \<Rightarrow> d)"

definition toLowerCase :: "string \<Rightarrow> string" where
  "toLowerCase s = map lower_char s"

fun str_includes :: "string \<Rightarrow> string \<Rightarrow> bool" where
  "str_includes [] q = (q = [])"
| "str_includes (c # s) q = (prefix q (c # s) \<or> str_includes s q)"

section \<open>Tasks\<close>

text \<open>
  \<open>Task\<close> of \<open>types/Task\<close>. The fields every task has before the database assigns an
  identifier and a completion flag form \<open>task_input\<close> (the type
  \<open>Omit<Task, 'id' | 'completed'>\<close> of the create form); \<open>task\<close> extends it.
\<close>

datatype priority = low | medium | high

fun priority_str :: "priority \<Rightarrow> string" where
  "priority_str low = ''low''"
| "priority_str medium = ''medium''"
| "priority_str high = ''high''"

record task_input =
  title :: string
  description :: string
  category :: string
  priority :: priority
  dueDate :: string

record task = task_input +
  task_id :: string
  completed :: bool

section \<open>The dashboard's filter and search\<close>

text \<open>
  The four pieces of filter state of \<open>TaskManager\<close>; \<open>status\<close> is the state variable the
  component calls \<open>filter\<close>.
\<close>

record filters =
  status :: string
  searchQuery :: string
  categoryFilter :: string
  priorityFilter :: string

text \<open>The callback handed to \<open>tasks.filter\<close>, with its early returns in source order.\<close>

definition keep_task :: "filters \<Rightarrow> task \<Rightarrow> bool" where
  "keep_task f t =
     (if status f = ''completed'' \<and> \<not> completed t then False
      else if status f = ''active'' \<and> completed t then False
      else if categoryFilter f \<noteq> ''all'' \<and> category t \<noteq> categoryFilter f then False
      else if priorityFilter f \<noteq> ''all'' \<and> priority_str (priority t) \<noteq> priorityFilter f then False
      else if searchQuery f \<noteq> [] then
        (let query = toLowerCase (searchQuery f)
         in str_includes (toLowerCase (title t)) query \<or> str_includes (toLowerCase (description t)) query)
      else True)"

definition filteredTasks :: "filters \<Rightarrow> task list \<Rightarrow> task list" where
  "filteredTasks f tasks = filter (keep_task f) tasks"

text \<open>
  Arrays are objects held by reference. A store lists the arrays that exist, a reference is
  an index into it. \<open>Array.prototype.filter\<close> allocates the array it returns; a reference
  to no array cannot arise in the program and yields \<open>None\<close> here.
\<close>

type_synonym store = "task list list"

definition Array_filter :: "(task \<Rightarrow> bool) \<Rightarrow> nat \<Rightarrow> store \<Rightarrow> (nat \<times> store) option" where
  "Array_filter p a s =
     (if a < length s then Some (length s, s @ [filter p (s ! a)]) else None)"

definition filteredTasks_in :: "filters \<Rightarrow> nat \<Rightarrow> store \<Rightarrow> (nat \<times> store) option" where
  "filteredTasks_in f a s = Array_filter (keep_task f) a s"

text \<open>The four predicates as the specification words them.\<close>

definition passes_status :: "filters \<Rightarrow> task \<Rightarrow> bool" where
  "passes_status f t =
     (if status f = ''completed'' then completed t
      else if status f = ''active'' then \<not> completed t
      else True)"

definition passes_category :: "filters \<Rightarrow> task \<Rightarrow> bool" where
  "passes_category f t = (categoryFilter f = ''all'' \<or> category t = categoryFilter f)"

definition passes_priority :: "filters \<Rightarrow> task \<Rightarrow> bool" where
  "passes_priority f t = (priorityFilter f = ''all'' \<or> priority_str (priority t) = priorityFilter f)"

definition matches_text :: "filters \<Rightarrow> task \<Rightarrow> bool" where
  "matches_text f t =
     (sublist (toLowerCase (searchQuery f)) (toLowerCase (title t)) \<or>
      sublist (toLowerCase (searchQuery f)) (toLowerCase (description t)))"

section \<open>Notifications of the dashboard\<close>

text \<open>
  \<open>TaskManager\<close> keeps one \<open>notification\<close> state variable. \<open>showNotification\<close> sets it
  and schedules a timer that sets it to \<open>null\<close> 3000 ms later. Time is a logical clock in
  milliseconds; \<open>timers\<close> holds the deadlines of the scheduled callbacks. \<open>elapse\<close> lets
  the given time pass: every timer whose deadline has been reached fires, and each one
  runs \<open>setNotification(null)\<close>. No code of the component removes a scheduled timer.
\<close>

datatype notification_type = success | error

record notification =
  message :: string
  type :: notification_type

record dashboard =
  notification :: "notification option"
  timers :: "nat list"
  now :: nat

definition showNotification :: "string \<Rightarrow> notification_type \<Rightarrow> dashboard \<Rightarrow> dashboard" where
  "showNotification m ty d =
     d\<lparr>notification := Some \<lparr>message = m, type = ty\<rparr>,
       timers := timers d @ [now d + 3000]\<rparr>"

definition elapse :: "nat \<Rightarrow> dashboard \<Rightarrow> dashboard" where
  "elapse ms d =
     (let t = now d + ms;
          due = filter (\<lambda>x. x \<le> t) (timers d)
      in d\<lparr>notification := (if due = [] then notification d else None),
           timers := filter (\<lambda>x. t < x) (timers d),
           now := t\<rparr>)"

definition initial_dashboard :: dashboard where
  "initial_dashboard = \<lparr>notification = None, timers = [], now = 0\<rparr>"

section \<open>Task validation\<close>

text \<open>
  The create form (\<open>TaskForm\<close>) and the card in edit mode (\<open>TaskCard\<close>) each validate
  their own state. \<open>newErrors\<close> is an object keyed by field name; every key is assigned at
  most once, so it is the list of its entries in assignment order, and it has no keys
  exactly when the list is empty. Each validator stores the errors in the component
  state and returns whether there are none.
\<close>

record task_form =
  form_title :: string
  form_description :: string
  form_category :: string
  form_priority :: priority
  form_dueDate :: string
  form_errors :: "(string \<times> string) list"
  isSubmitting :: bool

definition validateForm :: "task_form \<Rightarrow> task_form \<times> bool" where
  "validateForm s =
     (let e1 = (if trim (form_title s) = [] then [(''title'', ''Title is required'')]
                else if length (trim (form_title s)) < 3
                  then [(''title'', ''Title must be at least 3 characters'')]
                else []);
          e2 = (if trim (form_description s) = []
                  then e1 @ [(''description'', ''Description is required'')]
                else if length (trim (form_description s)) < 10
                  then e1 @ [(''description'', ''Description must be at least 10 characters'')]
                else e1);
          newErrors = (if form_dueDate s = [] then e2 @ [(''dueDate'', ''Due date is required'')]
                       else e2)
      in (s\<lparr>form_errors := newErrors\<rparr>, newErrors = []))"

record task_card =
  editedTask :: task
  card_errors :: "(string \<times> string) list"
  isEditing :: bool
  isSaving :: bool

definition validateTask :: "task_card \<Rightarrow> task_card \<times> bool" where
  "validateTask c =
     (let e1 = (if trim (title (editedTask c)) = [] then [(''title'', ''Title is required'')]
                else if length (trim (title (editedTask c))) < 3
                  then [(''title'', ''Title must be at least 3 characters'')]
                else []);
          newErrors = (if trim (description (editedTask c)) = []
                  then e1 @ [(''description'', ''Description is required'')]
                else if length (trim (description (editedTask c))) < 10
                  then e1 @ [(''description'', ''Description must be at least 10 characters'')]
                else e1)
      in (c\<lparr>card_errors := newErrors\<rparr>, newErrors = []))"

section \<open>Asynchronous calls\<close>

text \<open>
  An awaited call either resolves or rejects with a thrown value, which is an \<open>Error\<close>
  carrying a message or something else. Handlers take the collaborator they await as a
  function giving the outcome, and return the list of calls they made next to the new
  state.
\<close>

datatype thrown = Error string | NotAnError

datatype outcome = Resolved | Rejected thrown

section \<open>Submitting the create form\<close>

text \<open>
  \<open>handleSubmit\<close> of \<open>TaskForm\<close>. \<open>today\<close> is the date the clock gives when the form
  resets (\<open>new Date().toISOString().split('T')[0]\<close>); the second component of the result
  lists the payloads handed to \<open>onSubmit\<close>.
\<close>

definition TaskForm_handleSubmit ::
  "string \<Rightarrow> (task_input \<Rightarrow> outcome) \<Rightarrow> task_form \<Rightarrow> task_form \<times> task_input list" where
  "TaskForm_handleSubmit today onSubmit s =
     (let (s1, ok) = validateForm s in
      if \<not> ok then (s1, [])
      else
        (let t = \<lparr>title = trim (form_title s1), description = trim (form_description s1),
                  category = form_category s1, priority = form_priority s1,
                  dueDate = form_dueDate s1\<rparr>
         in case onSubmit t of
              Resolved \<Rightarrow>
                (s1\<lparr>form_title := [], form_description := [], form_category := ''Personal'',
                    form_priority := medium, form_dueDate := today, form_errors := [],
                    isSubmitting := False\<rparr>, [t])
            | Rejected e \<Rightarrow> (s1\<lparr>isSubmitting := False\<rparr>, [t])))"

section \<open>Registration and login\<close>

datatype action =
    CreateUser string string
  | SignIn string string
  | Navigate string
  | NavigateAfter nat string

record register_form =
  reg_email :: string
  reg_password :: string
  reg_confirmPassword :: string
  reg_error :: "string option"
  reg_success :: "string option"
  reg_loading :: bool

definition Register_handleSubmit ::
  "(string \<Rightarrow> string \<Rightarrow> outcome) \<Rightarrow> register_form \<Rightarrow> register_form \<times> action list" where
  "Register_handleSubmit createUserWithEmailAndPassword s =
     (let s1 = s\<lparr>reg_error := None, reg_success := None\<rparr> in
      if reg_password s \<noteq> reg_confirmPassword s
        then (s1\<lparr>reg_error := Some ''Passwords do not match''\<rparr>, [])
      else if length (reg_password s) < 6
        then (s1\<lparr>reg_error := Some ''Password must be at least 6 characters long''\<rparr>, [])
      else
        (case createUserWithEmailAndPassword (reg_email s) (reg_password s) of
           Resolved \<Rightarrow>
             (s1\<lparr>reg_success := Some ''Account created successfully! Redirecting to dashboard...'',
                 reg_loading := False\<rparr>,
              [CreateUser (reg_email s) (reg_password s), NavigateAfter 1500 ''/''])
         | Rejected (Error m) \<Rightarrow>
             (s1\<lparr>reg_error := Some m, reg_loading := False\<rparr>,
              [CreateUser (reg_email s) (reg_password s)])
         | Rejected NotAnError \<Rightarrow>
             (s1\<lparr>reg_error := Some ''An unknown error occurred'', reg_loading := False\<rparr>,
              [CreateUser (reg_email s) (reg_password s)])))"

record login_form =
  login_email :: string
  login_password :: string
  login_error :: "string option"
  login_loading :: bool

definition Login_handleSubmit ::
  "(string \<Rightarrow> string \<Rightarrow> outcome) \<Rightarrow> login_form \<Rightarrow> login_form \<times> action list" where
  "Login_handleSubmit signInWithEmailAndPassword s =
     (let s1 = s\<lparr>login_error := None\<rparr> in
      case signInWithEmailAndPassword (login_email s) (login_password s) of
        Resolved \<Rightarrow>
          (s1\<lparr>login_loading := False\<rparr>,
           [SignIn (login_email s) (login_password s), Navigate ''/''])
      | Rejected (Error m) \<Rightarrow>
          (let errorMessage =
             (if str_includes m ''invalid-credential'' \<or> str_includes m ''user-not-found'' \<or>
                 str_includes m ''wrong-password''
                then ''Invalid email or password. Please try again.''
              else if str_includes m ''too-many-requests''
                then ''Too many failed attempts. Please try again later.''
              else m)
           in (s1\<lparr>login_error := Some errorMessage, login_loading := False\<rparr>,
               [SignIn (login_email s) (login_password s)]))
      | Rejected NotAnError \<Rightarrow>
          (s1\<lparr>login_error := Some ''An unknown error occurred'', login_loading := False\<rparr>,
           [SignIn (login_email s) (login_password s)]))"

section \<open>The task repository\<close>

text \<open>
  \<open>useTasks\<close> reads the user from \<open>useAuth\<close>. Of the user object the hook reads \<open>uid\<close>;
  \<open>ref\<close> is the identity of the object, which the dependency list \<open>[user]\<close> compares.
  \<open>listener\<close> is the live query that is open (by the uid it is scoped to) and
  \<open>subscriptions\<close> logs every \<open>onSnapshot\<close> call made so far.
\<close>

record user =
  uid :: string
  ref :: nat

record repository =
  current_user :: "user option"
  tasks :: "task list"
  loading :: bool
  load_error :: "string option"
  listener :: "string option"
  subscriptions :: "string list"

text \<open>The body of the effect, run with the user of the current render.\<close>

definition effect :: "repository \<Rightarrow> repository" where
  "effect r =
     (case current_user r of
        None \<Rightarrow> r\<lparr>tasks := [], loading := False\<rparr>
      | Some u \<Rightarrow>
          r\<lparr>load_error := None, listener := Some (uid u),
            subscriptions := subscriptions r @ [uid u]\<rparr>)"

text \<open>
  The cleanup of the previous run of the effect: \<open>unsubscribe\<close> when that run had a
  user, nothing when it returned early.
\<close>

definition cleanup :: "repository \<Rightarrow> repository" where
  "cleanup r =
     (case current_user r of
        None \<Rightarrow> r
      | Some u \<Rightarrow> r\<lparr>listener := None\<rparr>)"

text \<open>
  What can happen to a mounted hook: the identity subscription delivers a user or
  \<open>null\<close>, the open live query delivers a snapshot, or it reports an error. A delivery
  of the user object already held changes no dependency and runs nothing; any other
  delivery runs the cleanup and then the effect. The callbacks of a live query that has
  been unsubscribed are not called.
\<close>

datatype event = AuthState "user option" | Snapshot "task list" | SnapshotError

fun step :: "event \<Rightarrow> repository \<Rightarrow> repository" where
  "step (AuthState u) r =
     (if u = current_user r then r else effect ((cleanup r)\<lparr>current_user := u\<rparr>))"
| "step (Snapshot tasksData) r =
     (case listener r of
        None \<Rightarrow> r
      | Some q \<Rightarrow> r\<lparr>tasks := tasksData, loading := False\<rparr>)"
| "step SnapshotError r =
     (case listener r of
        None \<Rightarrow> r
      | Some q \<Rightarrow> r\<lparr>load_error := Some ''Failed to load tasks. Please refresh the page.'',
                    loading := False\<rparr>)"

text \<open>Mounting: the initial state of the hook, then the effect of the first render.\<close>

definition mount :: "user option \<Rightarrow> repository" where
  "mount u =
     effect \<lparr>current_user = u, tasks = [], loading = True, load_error = None,
             listener = None, subscriptions = []\<rparr>"

definition run :: "user option \<Rightarrow> event list \<Rightarrow> repository" where
  "run u evs = foldl (\<lambda>r e. step e r) (mount u) evs"

text \<open>
  \<open>addTask\<close>. The argument is an object, a finite map from field names to values; the
  spread copies its fields and the two that follow overwrite. \<open>addDoc\<close> answers for the
  document database. The result is the message of the error thrown, or unit, next to the
  documents handed to \<open>addDoc\<close>.
\<close>

datatype field_value = Str string | Bool bool

type_synonym fields = "string \<rightharpoonup> field_value"

definition addTask ::
  "(fields \<Rightarrow> outcome) \<Rightarrow> user option \<Rightarrow> fields \<Rightarrow> (string + unit) \<times> fields list" where
  "addTask addDoc usr task =
     (case usr of
        None \<Rightarrow> (Inl ''User not authenticated'', [])
      | Some u \<Rightarrow>
          (let data = task(''completed'' \<mapsto> Bool False, ''userId'' \<mapsto> Str (uid u)) in
           case addDoc data of
             Resolved \<Rightarrow> (Inr (), [data])
           | Rejected e \<Rightarrow> (Inl ''Failed to add task'', [data])))"

section \<open>Sample inputs\<close>

definition gym_task :: task where
  "gym_task =
     \<lparr>title = ''Gym Workout'', description = ''Leg day at the gym'', category = ''Health'',
      priority = medium, dueDate = ''2025-12-25'', task_id = ''t1'', completed = False\<rparr>"

definition doctor_task :: task where
  "doctor_task =
     \<lparr>title = ''Doctor Appointment'', description = ''Annual checkup visit'',
      category = ''Personal'', priority = high, dueDate = ''2025-12-26'', task_id = ''t2'',
      completed = True\<rparr>"

definition personal_gym_filters :: filters where
  "personal_gym_filters =
     \<lparr>status = ''all'', searchQuery = ''gym'', categoryFilter = ''Personal'',
      priorityFilter = ''all''\<rparr>"

definition health_gym_filters :: filters where
  "health_gym_filters =
     \<lparr>status = ''active'', searchQuery = ''GYM'', categoryFilter = ''Health'',
      priorityFilter = ''medium''\<rparr>"

definition cafe_task :: task where
  "cafe_task =
     \<lparr>title = ''caf'' @ [CHR 0xE9] @ '' au lait'', description = ''Order at the counter'',
      category = ''Personal'', priority = low, dueDate = ''2025-12-27'', task_id = ''t3'',
      completed = False\<rparr>"

definition cafe_filters :: filters where
  "cafe_filters =
     \<lparr>status = ''all'', searchQuery = ''CAF'' @ [CHR 0xC9], categoryFilter = ''all'',
      priorityFilter = ''all''\<rparr>"

definition padded_form :: task_form where
  "padded_form =
     \<lparr>form_title = [CHR 0xA0] @ ''ab'' @ [CHR 0xA0],
      form_description = replicate 10 (CHR 0xA0),
      form_category = ''Personal'', form_priority = medium, form_dueDate = ''2025-12-31'',
      form_errors = [], isSubmitting = False\<rparr>"

definition first_note :: dashboard where
  "first_note = showNotification ''Task created successfully!'' success initial_dashboard"

definition second_note :: dashboard where
  "second_note =
     showNotification ''Task deleted successfully!'' success (elapse 2000 first_note)"

definition cleared_date_form :: task_form where
  "cleared_date_form =
     \<lparr>form_title = ''Buy milk'', form_description = ''Two litres of whole milk'',
      form_category = ''Personal'', form_priority = medium, form_dueDate = [],
      form_errors = [], isSubmitting = False\<rparr>"

definition milk_form :: task_form where
  "milk_form =
     \<lparr>form_title = '' Buy milk'', form_description = ''Two litres of whole milk '',
      form_category = ''Shopping'', form_priority = high, form_dueDate = ''2025-12-31'',
      form_errors = [(''title'', [])], isSubmitting = False\<rparr>"

definition milk_payload :: task_input where
  "milk_payload =
     \<lparr>title = ''Buy milk'', description = ''Two litres of whole milk'',
      category = ''Shopping'', priority = high, dueDate = ''2025-12-31''\<rparr>"

definition weak_registration :: register_form where
  "weak_registration =
     \<lparr>reg_email = ''test@example.com'', reg_password = ''weak'',
      reg_confirmPassword = ''weak'', reg_error = None, reg_success = None,
      reg_loading = False\<rparr>"

definition mismatched_registration :: register_form where
  "mismatched_registration =
     \<lparr>reg_email = ''test@example.com'', reg_password = ''password123'',
      reg_confirmPassword = ''different123'', reg_error = None, reg_success = None,
      reg_loading = False\<rparr>"

definition good_registration :: register_form where
  "good_registration =
     \<lparr>reg_email = ''test@example.com'', reg_password = ''password123'',
      reg_confirmPassword = ''password123'', reg_error = None, reg_success = None,
      reg_loading = False\<rparr>"

definition some_login :: login_form where
  "some_login =
     \<lparr>login_email = ''test@example.com'', login_password = ''password123'',
      login_error = None, login_loading = False\<rparr>"

definition user_u1 :: user where
  "user_u1 = \<lparr>uid = ''u1'', ref = 1\<rparr>"

definition user_u2 :: user where
  "user_u2 = \<lparr>uid = ''u2'', ref = 2\<rparr>"

definition failed_load :: repository where
  "failed_load = run None [AuthState (Some user_u1), SnapshotError]"

definition forged_fields :: fields where
  "forged_fields =
     [''title'' \<mapsto> Str ''New'', ''completed'' \<mapsto> Bool True, ''userId'' \<mapsto> Str ''intruder'']"

section \<open>Properties of the filter\<close>

text \<open>The primitives on characters above U+007F.\<close>

lemma trim_no_break_space:
  "trim ([CHR 0xA0] @ ''ab'' @ [CHR 0xA0]) = ''ab'' \<and> trim (replicate 10 (CHR 0xA0)) = []"
  by (simp add: trim_def is_white_space_def numeral_Bit0 numeral_Bit1)

lemma toLowerCase_latin1:
  "toLowerCase (''CAF'' @ [CHR 0xC9]) = ''caf'' @ [CHR 0xE9] \<and>
   toLowerCase [CHR 0xD7, CHR 0xDF, CHR 0xDE] = [CHR 0xD7, CHR 0xDF, CHR 0xFE]"
  by (simp add: toLowerCase_def lower_char_def upper_case_def lower_case_def)

lemma includes_sublist: "str_includes s q = sublist q s"
  by (induction s) (simp_all add: sublist_Cons_right)

lemma keep_task_conj:
  "keep_task f t =
     (passes_status f t \<and> passes_category f t \<and> passes_priority f t \<and>
      (searchQuery f = [] \<or> matches_text f t))"
  by (simp add: keep_task_def passes_status_def passes_category_def passes_priority_def
      matches_text_def includes_sublist Let_def)

text \<open>
  C1, as amended. With a non-empty search query the four predicates are AND-ed: the output
  holds, in input order, exactly the tasks that pass the status, category and priority
  filters and whose lower-cased title or description contains the lower-cased query.
\<close>

theorem filteredTasks_search_conjunctive:
  assumes "searchQuery f \<noteq> []"
  shows "filteredTasks f ts =
     filter (\<lambda>t. passes_status f t \<and> passes_category f t \<and> passes_priority f t \<and>
                 matches_text f t) ts"
proof -
  have "keep_task f = (\<lambda>t. passes_status f t \<and> passes_category f t \<and>
      passes_priority f t \<and> matches_text f t)"
    using assms by (intro ext) (simp add: keep_task_conj)
  then show ?thesis by (simp add: filteredTasks_def)
qed

text \<open>
  The query \<open>GYM\<close> with status \<open>active\<close>, category \<open>Health\<close> and priority \<open>medium\<close>
  keeps the gym task and drops the doctor's appointment.
\<close>

theorem filteredTasks_search_conjunctive_witness:
  "searchQuery health_gym_filters \<noteq> [] \<and>
   filteredTasks health_gym_filters [gym_task, doctor_task] = [gym_task] \<and>
   filter (\<lambda>t. passes_status health_gym_filters t \<and> passes_category health_gym_filters t \<and>
                passes_priority health_gym_filters t \<and> matches_text health_gym_filters t)
     [gym_task, doctor_task] = [gym_task]"
proof -
  have q: "searchQuery health_gym_filters \<noteq> []"
    by (simp add: health_gym_filters_def)
  have "filteredTasks health_gym_filters [gym_task, doctor_task] = [gym_task]"
    by (simp add: health_gym_filters_def gym_task_def doctor_task_def filteredTasks_def
        keep_task_def toLowerCase_def lower_char_def upper_case_def lower_case_def)
  with q filteredTasks_search_conjunctive [OF q, of "[gym_task, doctor_task]"]
  show ?thesis by simp
qed

text \<open>
  C1 as stated fails: the gym task matches the query \<open>gym\<close>, yet with the category filter
  set to \<open>Personal\<close> it is not in the output.
\<close>

theorem search_does_not_bypass_filters:
  "searchQuery personal_gym_filters \<noteq> [] \<and>
   matches_text personal_gym_filters gym_task \<and>
   gym_task \<in> set [gym_task, doctor_task] \<and>
   gym_task \<notin> set (filteredTasks personal_gym_filters [gym_task, doctor_task])"
  by (simp add: personal_gym_filters_def gym_task_def doctor_task_def matches_text_def
      filteredTasks_def keep_task_def toLowerCase_def lower_char_def upper_case_def lower_case_def
      includes_sublist [symmetric])

text \<open>Case is folded above U+007F too: the query \<open>CAF\<close>+U+00C9 finds \<open>caf\<close>+U+00E9.\<close>

lemma filteredTasks_folds_latin1:
  "filteredTasks cafe_filters [cafe_task, gym_task] = [cafe_task]"
  by (simp add: cafe_filters_def cafe_task_def gym_task_def filteredTasks_def keep_task_def
      toLowerCase_def lower_char_def upper_case_def lower_case_def)

text \<open>
  C8. For every filter state the output is a subsequence of the input and filtering the
  output again changes nothing; run on a store, the combinator returns a reference to a
  new array and leaves every array that existed, the input among them, as it was.
\<close>

theorem filteredTasks_subseq_idempotent:
  assumes "a < length s"
  shows "subseq (filteredTasks f ts) ts \<and>
     filteredTasks f (filteredTasks f ts) = filteredTasks f ts \<and>
     (\<exists>r s'. filteredTasks_in f a s = Some (r, s') \<and> length s \<le> r \<and>
        take (length s) s' = s \<and> s' ! r = filteredTasks f (s ! a))"
  using assms by (simp add: filteredTasks_def filteredTasks_in_def Array_filter_def)

theorem filteredTasks_subseq_idempotent_witness:
  "(0::nat) < length [[gym_task, doctor_task]] \<and>
   subseq (filteredTasks health_gym_filters [gym_task, doctor_task]) [gym_task, doctor_task] \<and>
   filteredTasks health_gym_filters (filteredTasks health_gym_filters [gym_task, doctor_task]) =
     filteredTasks health_gym_filters [gym_task, doctor_task] \<and>
   (\<exists>r s'. filteredTasks_in health_gym_filters 0 [[gym_task, doctor_task]] = Some (r, s') \<and>
      length [[gym_task, doctor_task]] \<le> r \<and>
      take (length [[gym_task, doctor_task]]) s' = [[gym_task, doctor_task]] \<and>
      s' ! r = filteredTasks health_gym_filters ([[gym_task, doctor_task]] ! 0))"
proof -
  have h: "(0::nat) < length [[gym_task, doctor_task]]" by simp
  from h filteredTasks_subseq_idempotent [OF h, of health_gym_filters "[gym_task, doctor_task]"]
  show ?thesis by blast
qed

section \<open>Properties of the notifications\<close>

text \<open>
  The visible notification after some time has passed: showing one replaces whatever was
  visible and adds a timer 3000 ms ahead; the timers already pending stay.
\<close>

lemma showNotification_elapse:
  "notification (showNotification m ty d) = Some \<lparr>message = m, type = ty\<rparr> \<and>
   timers (showNotification m ty d) = timers d @ [now d + 3000] \<and>
   notification (elapse ms (showNotification m ty d)) =
     (if 3000 \<le> ms \<or> list_ex (\<lambda>x. x \<le> now d + ms) (timers d) then None
      else Some \<lparr>message = m, type = ty\<rparr>)"
  by (auto simp add: showNotification_def elapse_def Let_def filter_empty_conv list_ex_iff)

text \<open>
  C2. A notification is to stay visible until 3 seconds have passed since it was shown or
  a newer one replaces it. The component does not do so: a first notification is shown at
  time 0 and a second at time 2000; at time 3000, 1000 ms after the second was shown and
  with no newer notification, the timer of the first has cleared the second.
\<close>

theorem newer_notification_cleared_by_older_timer:
  "now second_note = 2000 \<and>
   notification second_note =
     Some \<lparr>message = ''Task deleted successfully!'', type = success\<rparr> \<and>
   notification (elapse 999 second_note) =
     Some \<lparr>message = ''Task deleted successfully!'', type = success\<rparr> \<and>
   (1000::nat) < 3000 \<and>
   notification (elapse 1000 second_note) = None"
  by (simp add: second_note_def first_note_def initial_dashboard_def showNotification_def
      elapse_def)

section \<open>Properties of validation\<close>

text \<open>
  C3, as amended. Edit-mode validation accepts exactly when the trimmed title has at
  least 3 characters and the trimmed description at least 10. Create-form validation
  accepts exactly when, in addition, the due date is not empty.
\<close>

theorem validation_accepts_iff:
  "snd (validateTask c) =
     (3 \<le> length (trim (title (editedTask c))) \<and>
      10 \<le> length (trim (description (editedTask c)))) \<and>
   snd (validateForm s) =
     (3 \<le> length (trim (form_title s)) \<and> 10 \<le> length (trim (form_description s)) \<and>
      form_dueDate s \<noteq> [])"
  by (auto simp add: validateTask_def validateForm_def Let_def)

text \<open>
  C3 as stated fails for the create form: title and description are long enough, the
  date field has been cleared, and the form is rejected.
\<close>

theorem validateForm_rejects_empty_dueDate:
  "3 \<le> length (trim (form_title cleared_date_form)) \<and>
   10 \<le> length (trim (form_description cleared_date_form)) \<and>
   \<not> snd (validateForm cleared_date_form)"
  by (simp add: cleared_date_form_def validateForm_def trim_def is_white_space_def)

text \<open>
  No-break spaces are trimmed: a title of two letters between no-break spaces and a
  description of ten no-break spaces are both rejected.
\<close>

lemma validateForm_trims_no_break_space:
  "fst (validateForm padded_form) =
     padded_form\<lparr>form_errors :=
       [(''title'', ''Title must be at least 3 characters''),
        (''description'', ''Description is required'')]\<rparr> \<and>
   \<not> snd (validateForm padded_form)"
  using trim_no_break_space by (simp add: validateForm_def padded_form_def)

section \<open>Properties of the create form\<close>

text \<open>
  C9. On a submission that passes validation: if \<open>onSubmit\<close> resolves, the form is back
  at its defaults (empty title and description, category Personal, priority medium, due
  date today) with no errors; if it rejects, every field keeps the value entered.
\<close>

theorem TaskForm_reset_only_on_success:
  assumes "snd (validateForm s)"
  shows "(onSubmit \<lparr>title = trim (form_title s), description = trim (form_description s),
            category = form_category s, priority = form_priority s,
            dueDate = form_dueDate s\<rparr> = Resolved \<longrightarrow>
          fst (TaskForm_handleSubmit today onSubmit s) =
            \<lparr>form_title = [], form_description = [], form_category = ''Personal'',
             form_priority = medium, form_dueDate = today, form_errors = [],
             isSubmitting = False\<rparr>) \<and>
         (onSubmit \<lparr>title = trim (form_title s), description = trim (form_description s),
            category = form_category s, priority = form_priority s,
            dueDate = form_dueDate s\<rparr> = Rejected e \<longrightarrow>
          fst (TaskForm_handleSubmit today onSubmit s) =
            s\<lparr>form_errors := [], isSubmitting := False\<rparr>)"
  using assms
  by (auto simp add: TaskForm_handleSubmit_def validateForm_def Let_def split: if_splits)

lemma trim_milk:
  "trim (form_title milk_form) = ''Buy milk'' \<and>
   trim (form_description milk_form) = ''Two litres of whole milk''"
  by (simp add: milk_form_def trim_def is_white_space_def)

theorem TaskForm_reset_only_on_success_witness:
  "snd (validateForm milk_form) \<and>
   fst (TaskForm_handleSubmit ''2025-11-02'' (\<lambda>t. Resolved) milk_form) =
     \<lparr>form_title = [], form_description = [], form_category = ''Personal'',
      form_priority = medium, form_dueDate = ''2025-11-02'', form_errors = [],
      isSubmitting = False\<rparr> \<and>
   fst (TaskForm_handleSubmit ''2025-11-02'' (\<lambda>t. Rejected (Error ''Failed to add task''))
          milk_form) =
     \<lparr>form_title = '' Buy milk'', form_description = ''Two litres of whole milk '',
      form_category = ''Shopping'', form_priority = high, form_dueDate = ''2025-12-31'',
      form_errors = [], isSubmitting = False\<rparr>"
proof -
  have v: "snd (validateForm milk_form)"
    using trim_milk by (simp add: validateForm_def) (simp add: milk_form_def)
  from v
    TaskForm_reset_only_on_success [OF v, where onSubmit = "\<lambda>t. Resolved"
      and today = "''2025-11-02''"]
    TaskForm_reset_only_on_success [OF v,
      where onSubmit = "\<lambda>t. Rejected (Error ''Failed to add task'')"
      and e = "Error ''Failed to add task''" and today = "''2025-11-02''"]
  show ?thesis by (simp add: milk_form_def)
qed

section \<open>Properties of registration and login\<close>

text \<open>
  C4. A registration whose password differs from the confirmation reports that the
  passwords do not match and calls nothing; one whose password equals the confirmation
  but has fewer than 6 characters reports the minimum length and calls nothing; the
  sign-up call is made exactly when both checks pass.
\<close>

theorem register_checks_before_sign_up:
  "(reg_password s \<noteq> reg_confirmPassword s \<longrightarrow>
      reg_error (fst (Register_handleSubmit svc s)) = Some ''Passwords do not match'' \<and>
      snd (Register_handleSubmit svc s) = []) \<and>
   (reg_password s = reg_confirmPassword s \<and> length (reg_password s) < 6 \<longrightarrow>
      reg_error (fst (Register_handleSubmit svc s)) =
        Some ''Password must be at least 6 characters long'' \<and>
      snd (Register_handleSubmit svc s) = []) \<and>
   (CreateUser (reg_email s) (reg_password s) \<in> set (snd (Register_handleSubmit svc s))) =
     (reg_password s = reg_confirmPassword s \<and> 6 \<le> length (reg_password s)) \<and>
   (\<forall>e p. CreateUser e p \<in> set (snd (Register_handleSubmit svc s)) \<longrightarrow>
      reg_password s = reg_confirmPassword s \<and> 6 \<le> length (reg_password s))"
  by (auto simp add: Register_handleSubmit_def Let_def split: outcome.splits thrown.splits)

theorem register_checks_before_sign_up_witness:
  "reg_password mismatched_registration \<noteq> reg_confirmPassword mismatched_registration \<and>
   reg_error (fst (Register_handleSubmit (\<lambda>e p. Resolved) mismatched_registration)) =
     Some ''Passwords do not match'' \<and>
   snd (Register_handleSubmit (\<lambda>e p. Resolved) mismatched_registration) = [] \<and>
   reg_password weak_registration = reg_confirmPassword weak_registration \<and>
   length (reg_password weak_registration) < 6 \<and>
   reg_error (fst (Register_handleSubmit (\<lambda>e p. Resolved) weak_registration)) =
     Some ''Password must be at least 6 characters long'' \<and>
   snd (Register_handleSubmit (\<lambda>e p. Resolved) weak_registration) = [] \<and>
   CreateUser ''test@example.com'' ''password123''
     \<in> set (snd (Register_handleSubmit (\<lambda>e p. Resolved) good_registration))"
proof -
  have a: "reg_password mismatched_registration \<noteq> reg_confirmPassword mismatched_registration"
    by (simp add: mismatched_registration_def)
  have b: "reg_password weak_registration = reg_confirmPassword weak_registration \<and>
      length (reg_password weak_registration) < 6"
    by (simp add: weak_registration_def)
  have c: "reg_password good_registration = reg_confirmPassword good_registration \<and>
      6 \<le> length (reg_password good_registration)"
    by (simp add: good_registration_def)
  have d: "reg_email good_registration = ''test@example.com'' \<and>
      reg_password good_registration = ''password123''"
    by (simp add: good_registration_def)
  from a b c d
    register_checks_before_sign_up [of mismatched_registration "\<lambda>e p. Resolved"]
    register_checks_before_sign_up [of weak_registration "\<lambda>e p. Resolved"]
    register_checks_before_sign_up [of good_registration "\<lambda>e p. Resolved"]
  show ?thesis by metis
qed

text \<open>
  C7. For every message \<open>m\<close> of an error the identity service rejects a login with: if
  \<open>m\<close> contains one of the three credential markers the form shows the first fixed
  message, otherwise if it contains the rate-limiting marker the second, otherwise \<open>m\<close>
  itself. (A message carrying markers of both kinds gets the first.) A registration that
  reaches the identity service shows the message of its error as it is.
\<close>

theorem identity_errors_displayed:
  "login_error (fst (Login_handleSubmit (\<lambda>e p. Rejected (Error m)) l)) =
     Some (if sublist ''invalid-credential'' m \<or> sublist ''user-not-found'' m \<or>
              sublist ''wrong-password'' m
             then ''Invalid email or password. Please try again.''
           else if sublist ''too-many-requests'' m
             then ''Too many failed attempts. Please try again later.''
           else m) \<and>
   (reg_password s = reg_confirmPassword s \<and> 6 \<le> length (reg_password s) \<longrightarrow>
      reg_error (fst (Register_handleSubmit (\<lambda>e p. Rejected (Error m)) s)) = Some m)"
  by (auto simp add: Login_handleSubmit_def Register_handleSubmit_def Let_def includes_sublist)

theorem identity_errors_displayed_witness:
  "login_error (fst (Login_handleSubmit
      (\<lambda>e p. Rejected (Error ''Firebase: Error (auth/email-already-in-use).'')) some_login)) =
     Some ''Firebase: Error (auth/email-already-in-use).'' \<and>
   reg_password good_registration = reg_confirmPassword good_registration \<and>
   6 \<le> length (reg_password good_registration) \<and>
   reg_error (fst (Register_handleSubmit
      (\<lambda>e p. Rejected (Error ''Firebase: Error (auth/email-already-in-use).''))
      good_registration)) =
     Some ''Firebase: Error (auth/email-already-in-use).''"
proof -
  have h: "reg_password good_registration = reg_confirmPassword good_registration \<and>
      6 \<le> length (reg_password good_registration)"
    by (simp add: good_registration_def)
  have n: "\<not> sublist ''invalid-credential'' ''Firebase: Error (auth/email-already-in-use).'' \<and>
      \<not> sublist ''user-not-found'' ''Firebase: Error (auth/email-already-in-use).'' \<and>
      \<not> sublist ''wrong-password'' ''Firebase: Error (auth/email-already-in-use).'' \<and>
      \<not> sublist ''too-many-requests'' ''Firebase: Error (auth/email-already-in-use).''"
    by (simp add: includes_sublist [symmetric])
  note t = identity_errors_displayed [where m = "''Firebase: Error (auth/email-already-in-use).''"
      and l = some_login and s = good_registration]
  have "reg_error (fst (Register_handleSubmit
      (\<lambda>e p. Rejected (Error ''Firebase: Error (auth/email-already-in-use).''))
      good_registration)) =
     Some ''Firebase: Error (auth/email-already-in-use).''"
    using h t by blast
  moreover have "login_error (fst (Login_handleSubmit
      (\<lambda>e p. Rejected (Error ''Firebase: Error (auth/email-already-in-use).'')) some_login)) =
     Some ''Firebase: Error (auth/email-already-in-use).''"
    using n t by simp
  ultimately show ?thesis using h by blast
qed

text \<open>The two rewrites on messages as the identity service words them.\<close>

lemma login_friendly_messages:
  "login_error (fst (Login_handleSubmit
      (\<lambda>e p. Rejected (Error ''Firebase: Error (auth/invalid-credential).'')) some_login)) =
     Some ''Invalid email or password. Please try again.'' \<and>
   login_error (fst (Login_handleSubmit
      (\<lambda>e p. Rejected (Error ''Firebase: Error (auth/too-many-requests).'')) some_login)) =
     Some ''Too many failed attempts. Please try again later.''"
  by (simp add: Login_handleSubmit_def some_login_def)

section \<open>Properties of the task repository\<close>

lemma signed_out_idle:
  "current_user (run u evs) = None \<Longrightarrow>
     tasks (run u evs) = [] \<and> \<not> loading (run u evs) \<and> listener (run u evs) = None"
proof (induction evs rule: rev_induct)
  case Nil
  then show ?case by (auto simp add: run_def mount_def effect_def split: option.splits)
next
  case (snoc e evs)
  then show ?case
    by (cases e) (auto simp add: run_def effect_def cleanup_def split: option.splits if_splits)
qed

text \<open>
  C5. In every state a mounted repository can reach, a delivery of \<open>null\<close> leaves it with
  no tasks, not loading and with no live query open, and makes no \<open>onSnapshot\<close> call;
  so does mounting without a user.
\<close>

theorem null_user_yields_empty_and_no_subscription:
  "tasks (step (AuthState None) (run u evs)) = [] \<and>
   \<not> loading (step (AuthState None) (run u evs)) \<and>
   listener (step (AuthState None) (run u evs)) = None \<and>
   subscriptions (step (AuthState None) (run u evs)) = subscriptions (run u evs) \<and>
   tasks (mount None) = [] \<and> \<not> loading (mount None) \<and> listener (mount None) = None \<and>
   subscriptions (mount None) = []"
  using signed_out_idle [of u evs]
  by (auto simp add: effect_def cleanup_def mount_def split: option.splits)

text \<open>
  C6. Without a user \<open>addTask\<close> fails with the message \<open>User not authenticated\<close> and
  hands nothing to the database. With a user it hands over exactly one document: the
  caller's fields, except that \<open>completed\<close> is false and \<open>userId\<close> is the user's uid
  whatever the caller supplied for them.
\<close>

theorem addTask_guard_and_merge:
  "addTask addDoc None task = (Inl ''User not authenticated'', []) \<and>
   snd (addTask addDoc (Some u) task) =
     [\<lambda>k. if k = ''userId'' then Some (Str (uid u))
           else if k = ''completed'' then Some (Bool False)
           else task k]"
  by (auto simp add: addTask_def Let_def fun_eq_iff split: outcome.splits)

theorem addTask_guard_and_merge_witness:
  "addTask (\<lambda>d. Resolved) None forged_fields = (Inl ''User not authenticated'', []) \<and>
   map (\<lambda>d. (d ''title'', d ''completed'', d ''userId'', d ''dueDate''))
     (snd (addTask (\<lambda>d. Resolved) (Some user_u1) forged_fields)) =
     [(Some (Str ''New''), Some (Bool False), Some (Str ''u1''), None)]"
  using addTask_guard_and_merge [of "\<lambda>d. Resolved" forged_fields user_u1]
  by (simp add: forged_fields_def user_u1_def)

text \<open>
  C10. A delivery of \<open>null\<close> leaves the error field as it was, and on a transition from a
  user to \<open>null\<close> clears the tasks and the loading flag. After any event the error field
  is \<open>null\<close> exactly when the event opened a live query for a user, or the field was
  \<open>null\<close> before and the event was not an error of the open live query.
\<close>

theorem load_error_survives_sign_out:
  "load_error (step (AuthState None) r) = load_error r \<and>
   tasks (step (AuthState None) r) = (if current_user r = None then tasks r else []) \<and>
   loading (step (AuthState None) r) = (if current_user r = None then loading r else False) \<and>
   (load_error (step e r) = None) =
     ((\<exists>v. e = AuthState (Some v) \<and> current_user r \<noteq> Some v \<and>
           listener (step e r) = Some (uid v) \<and>
           subscriptions (step e r) = subscriptions r @ [uid v]) \<or>
      (load_error r = None \<and> (e = SnapshotError \<longrightarrow> listener r = None)))"
  by (cases e) (auto simp add: effect_def cleanup_def split: option.splits)

lemma failed_load_eval:
  "failed_load =
     \<lparr>current_user = Some user_u1, tasks = [], loading = False,
      load_error = Some ''Failed to load tasks. Please refresh the page.'',
      listener = Some ''u1'', subscriptions = [''u1'']\<rparr>"
  by (simp add: failed_load_def run_def mount_def effect_def cleanup_def user_u1_def)

text \<open>
  A user signs in, the live query fails, the user signs out: the message is still there.
  It goes when the next user signs in.
\<close>

theorem load_error_survives_sign_out_witness:
  "load_error failed_load = Some ''Failed to load tasks. Please refresh the page.'' \<and>
   current_user failed_load \<noteq> None \<and>
   load_error (step (AuthState None) failed_load) =
     Some ''Failed to load tasks. Please refresh the page.'' \<and>
   tasks (step (AuthState None) failed_load) = [] \<and>
   \<not> loading (step (AuthState None) failed_load) \<and>
   load_error (step (AuthState (Some user_u2)) (step (AuthState None) failed_load)) = None \<and>
   listener (step (AuthState (Some user_u2)) (step (AuthState None) failed_load)) = Some ''u2''"
proof -
  have a: "load_error failed_load = Some ''Failed to load tasks. Please refresh the page.'' \<and>
      current_user failed_load \<noteq> None"
    by (simp add: failed_load_eval)
  have b: "current_user (step (AuthState None) failed_load) \<noteq> Some user_u2"
    by (simp add: failed_load_eval effect_def cleanup_def)
  have c: "listener (step (AuthState (Some user_u2)) (step (AuthState None) failed_load)) =
      Some ''u2''"
    by (simp add: failed_load_eval effect_def cleanup_def user_u2_def)
  from a b c
    load_error_survives_sign_out [of failed_load "AuthState None"]
    load_error_survives_sign_out [of "step (AuthState None) failed_load"
      "AuthState (Some user_u2)"]
  show ?thesis
    by (simp add: failed_load_eval effect_def cleanup_def user_u2_def)
qed

end
